theory Spec2Isabelle
  imports Complex_Main "HOL-Library.AList"
begin

section \<open>Data model (src/database/models.py)\<close>

text \<open>
  A JSON claim value is a string or a number of whole seconds since the epoch (the
  resolution at which \<open>exp\<close> and \<open>iat\<close> travel in a token). A claim set is a Python
  dict: an association list in insertion order, looked up with \<open>map_of\<close> and written
  with \<open>AList.update\<close> (an existing key keeps its place, a new key goes last).
\<close>

datatype claim = Str string | Time int

type_synonym claims = "(string \<times> claim) list"

text \<open>
  The JWT library (python-jose) is not part of the repository. Tokens are modelled
  symbolically: a signed token carries the key and algorithm it was signed with and its
  claim set. A token is a string, and the same signed content can be written as more
  than one string (the decoder ignores, for instance, the unused low bits of the last
  base64 character of the signature): \<open>spelling\<close> tells these strings apart, 0 being
  the string the encoder writes. Two tokens are the same string exactly when all four
  components agree; every bearer string that is no signed token is \<open>Malformed\<close>.
\<close>

datatype token =
    Signed (signing_key: string) (signing_alg: string) (payload: claims) (spelling: nat)
  | Malformed string

text \<open>
  Table \<open>users\<close>. The timestamp columns, which the database server maintains, are left
  out. The column \<open>confirmed\<close> is nullable; the code only ever tests its truth value,
  under which NULL behaves as \<open>False\<close>.
\<close>

record user =
  uid :: int
  username :: string
  email :: string
  password :: string
  avatar :: "string option"
  refresh_token :: "token option"
  confirmed :: bool

record date =
  year :: nat
  month :: nat
  day :: nat

text \<open>Table \<open>contacts\<close>, again without the timestamp columns.\<close>

record contact =
  cid :: int
  name :: string
  last_name :: string
  contact_email :: "string option"
  phone :: string
  born_date :: "date option"
  user_id :: "int option"

text \<open>
  The errors a handler can end with: an \<open>HTTPException\<close> with its status code and
  detail, or one of the Python exceptions that no handler catches.
\<close>

datatype error = HTTPException nat string | KeyError string | AttributeError string
  | OverflowError | ValueError

text \<open>
  The class attributes of \<open>Auth\<close> (src/services/auth.py) that come from the
  configuration or from passlib: the signing secret, the algorithm and the password
  verifier of \<open>pwd_context\<close>.
\<close>

record auth =
  SECRET_KEY :: string
  ALGORITHM :: string
  pwd_verify :: "string \<Rightarrow> string \<Rightarrow> bool"

text \<open>
  The mutable world of a request: the two tables and the Redis cache. A cache entry
  holds the pickled snapshot of a user and the time to live set on the key, if any.
\<close>

record world =
  users :: "user list"
  contacts :: "contact list"
  cache :: "string \<rightharpoonup> user \<times> nat option"

section \<open>Token service (src/services/auth.py)\<close>

text \<open>\<open>dict.update\<close> with a dict literal: the pairs are written in order.\<close>

definition dict_update :: "claims \<Rightarrow> (string \<times> claim) list \<Rightarrow> claims" where
  "dict_update d kvs = fold (\<lambda>(k, v). AList.update k v) kvs d"

definition jwt_encode :: "claims \<Rightarrow> string \<Rightarrow> string \<Rightarrow> token" where
  "jwt_encode to_encode key alg = Signed key alg to_encode 0"

text \<open>
  \<open>jwt.decode\<close>: \<open>None\<close> stands for a raised \<open>JWTError\<close>. The library rejects a string
  that is no token, a signature made with another key, an algorithm outside the allowed
  list, an \<open>exp\<close> that is no number or lies before the decoding time \<open>now\<close>, an \<open>iat\<close>
  that is no number and a \<open>sub\<close> that is no string.
\<close>

definition exp_ok :: "claims \<Rightarrow> int \<Rightarrow> bool" where
  "exp_ok c now = (case map_of c ''exp'' of None \<Rightarrow> True
                   | Some (Time e) \<Rightarrow> \<not> e < now
                   | Some (Str _) \<Rightarrow> False)"

definition iat_ok :: "claims \<Rightarrow> bool" where
  "iat_ok c = (case map_of c ''iat'' of None \<Rightarrow> True
               | Some (Time _) \<Rightarrow> True
               | Some (Str _) \<Rightarrow> False)"

definition sub_ok :: "claims \<Rightarrow> bool" where
  "sub_ok c = (case map_of c ''sub'' of None \<Rightarrow> True
               | Some (Str _) \<Rightarrow> True
               | Some (Time _) \<Rightarrow> False)"

fun jwt_decode :: "token \<Rightarrow> string \<Rightarrow> string list \<Rightarrow> int \<Rightarrow> claims option" where
  "jwt_decode (Malformed s) key algorithms now = None"
| "jwt_decode (Signed k a c sp) key algorithms now =
     (if k = key \<and> a \<in> set algorithms \<and> exp_ok c now \<and> iat_ok c \<and> sub_ok c
      then Some c else None)"

subsection \<open>Dates, times and durations of the Python library\<close>

text \<open>
  A \<open>datetime\<close> is a number of microseconds since the epoch, between
  \<open>datetime.min\<close> (year 1) and \<open>datetime.max\<close> (the last microsecond of year 9999); a
  \<open>timedelta\<close> is a number of microseconds of magnitude below 1000000000 days.
\<close>

definition datetime_min :: int where
  "datetime_min = - 62135596800000000"

definition datetime_max :: int where
  "datetime_max = 253402300799999999"

definition datetime_ok :: "int \<Rightarrow> bool" where
  "datetime_ok t = (datetime_min \<le> t \<and> t \<le> datetime_max)"

definition timedelta_ok :: "int \<Rightarrow> bool" where
  "timedelta_ok td = (- 999999999 * 86400000000 \<le> td \<and> td < 1000000000 * 86400000000)"

text \<open>\<open>datetime + timedelta\<close> raises \<open>OverflowError\<close> when the sum leaves the range.\<close>

definition datetime_add :: "int \<Rightarrow> int \<Rightarrow> error + int" where
  "datetime_add t td = (if datetime_ok (t + td) then Inr (t + td) else Inl OverflowError)"

text \<open>
  A Python \<open>float\<close> (or \<open>int\<close>) passed as \<open>expires_delta\<close>: a finite value, given
  by the rational number it denotes, an infinity or a NaN. Its truth value is that of
  \<open>x != 0\<close>, which holds of the infinities and of NaN.
\<close>

datatype pyfloat = Finite rat | Infinite | NaN

fun float_truth :: "pyfloat \<Rightarrow> bool" where
  "float_truth (Finite q) = (q \<noteq> 0)"
| "float_truth Infinite = True"
| "float_truth NaN = True"

text \<open>
  \<open>timedelta(seconds=x)\<close> rounds to the nearest microsecond, ties to the even one. A
  whole number of seconds is converted exactly. (For a fractional \<open>x\<close> the library forms
  the product with 1000000 in double precision before it rounds; the model rounds the
  exact product.) An infinity raises \<open>OverflowError\<close>, as does a value beyond the
  range of \<open>timedelta\<close>, and NaN raises \<open>ValueError\<close>.
\<close>

definition round_half_even :: "rat \<Rightarrow> int" where
  "round_half_even x =
     (let f = \<lfloor>x\<rfloor>; r = x - of_int f
      in if r < 1 / 2 then f
         else if 1 / 2 < r then f + 1
         else if even f then f else f + 1)"

fun timedelta_seconds :: "pyfloat \<Rightarrow> error + int" where
  "timedelta_seconds NaN = Inl ValueError"
| "timedelta_seconds Infinite = Inl OverflowError"
| "timedelta_seconds (Finite q) =
     (let td = round_half_even (q * 1000000)
      in if timedelta_ok td then Inr td else Inl OverflowError)"

text \<open>
  The whole seconds of a \<open>datetime\<close>: what \<open>jwt.encode\<close> writes into the token for a
  \<open>datetime\<close> under \<open>exp\<close> or \<open>iat\<close> (\<open>timegm\<close> of its \<open>utctimetuple\<close>, which drops
  the microseconds).
\<close>

definition timestamp :: "int \<Rightarrow> int" where
  "timestamp t = t div 1000000"

subsection \<open>Issuing tokens\<close>

text \<open>
  \<open>create_access_token\<close>. The argument \<open>utcnow\<close> gives the successive readings of
  \<open>datetime.utcnow()\<close> during the call: reading 0 is the base of the expiry, reading 1
  becomes \<open>iat\<close>. The test \<open>if expires_delta:\<close> is Python truthiness: \<open>None\<close> and 0 are
  both false. The claims \<open>iat\<close> and \<open>exp\<close> are written as the encoder leaves them in
  the token, in whole seconds.
\<close>

definition create_access_token :: "auth \<Rightarrow> (nat \<Rightarrow> int) \<Rightarrow> claims \<Rightarrow> pyfloat option \<Rightarrow> error + token" where
  "create_access_token a utcnow data expires_delta =
     (case (case expires_delta of
              None \<Rightarrow> datetime_add (utcnow 0) (15 * 60 * 1000000)
            | Some x \<Rightarrow>
                if float_truth x
                then (case timedelta_seconds x of
                        Inl err \<Rightarrow> Inl err
                      | Inr td \<Rightarrow> datetime_add (utcnow 0) td)
                else datetime_add (utcnow 0) (15 * 60 * 1000000)) of
        Inl err \<Rightarrow> Inl err
      | Inr expire \<Rightarrow>
          Inr (jwt_encode
                 (dict_update data
                    [(''iat'', Time (timestamp (utcnow 1))), (''exp'', Time (timestamp expire)),
                     (''scope'', Str ''access_token'')])
                 (SECRET_KEY a) (ALGORITHM a)))"

definition create_refresh_token :: "auth \<Rightarrow> (nat \<Rightarrow> int) \<Rightarrow> claims \<Rightarrow> pyfloat option \<Rightarrow> error + token" where
  "create_refresh_token a utcnow data expires_delta =
     (case (case expires_delta of
              None \<Rightarrow> datetime_add (utcnow 0) (7 * 86400 * 1000000)
            | Some x \<Rightarrow>
                if float_truth x
                then (case timedelta_seconds x of
                        Inl err \<Rightarrow> Inl err
                      | Inr td \<Rightarrow> datetime_add (utcnow 0) td)
                else datetime_add (utcnow 0) (7 * 86400 * 1000000)) of
        Inl err \<Rightarrow> Inl err
      | Inr expire \<Rightarrow>
          Inr (jwt_encode
                 (dict_update data
                    [(''iat'', Time (timestamp (utcnow 1))), (''exp'', Time (timestamp expire)),
                     (''scope'', Str ''refresh_token'')])
                 (SECRET_KEY a) (ALGORITHM a)))"

subsection \<open>Decoding tokens\<close>

text \<open>
  \<open>payload['sub']\<close> after a successful decode. A missing key raises \<open>KeyError\<close>. The
  library has already rejected a \<open>sub\<close> that is no string, so the last case cannot be
  reached from \<open>jwt_decode\<close>; it is given the error of a failed decode.
\<close>

definition payload_sub :: "claims \<Rightarrow> error \<Rightarrow> error + string" where
  "payload_sub p jwt_error = (case map_of p ''sub'' of
       None \<Rightarrow> Inl (KeyError ''sub'')
     | Some (Str e) \<Rightarrow> Inr e
     | Some (Time _) \<Rightarrow> Inl jwt_error)"

definition decode_refresh_token :: "auth \<Rightarrow> int \<Rightarrow> token \<Rightarrow> error + string" where
  "decode_refresh_token a now refresh_tok =
     (case jwt_decode refresh_tok (SECRET_KEY a) [ALGORITHM a] now of
        None \<Rightarrow> Inl (HTTPException 401 ''Could not validate credentials'')
      | Some p \<Rightarrow>
          (case map_of p ''scope'' of
             None \<Rightarrow> Inl (KeyError ''scope'')
           | Some s \<Rightarrow>
               if s = Str ''refresh_token''
               then payload_sub p (HTTPException 401 ''Could not validate credentials'')
               else Inl (HTTPException 401 ''Invalid scope for token'')))"

definition get_email_from_token :: "auth \<Rightarrow> int \<Rightarrow> token \<Rightarrow> error + string" where
  "get_email_from_token a now tok =
     (case jwt_decode tok (SECRET_KEY a) [ALGORITHM a] now of
        None \<Rightarrow> Inl (HTTPException 422 ''Invalid token for email verification'')
      | Some p \<Rightarrow> payload_sub p (HTTPException 422 ''Invalid token for email verification''))"

definition create_email_token :: "auth \<Rightarrow> (nat \<Rightarrow> int) \<Rightarrow> claims \<Rightarrow> error + token" where
  "create_email_token a utcnow data =
     (case datetime_add (utcnow 0) (7 * 86400 * 1000000) of
        Inl err \<Rightarrow> Inl err
      | Inr expire \<Rightarrow>
          Inr (jwt_encode
                 (dict_update data
                    [(''iat'', Time (timestamp (utcnow 1))), (''exp'', Time (timestamp expire))])
                 (SECRET_KEY a) (ALGORITHM a)))"

section \<open>Session cache (the Redis client of \<open>Auth\<close>)\<close>

definition cache_get :: "string \<Rightarrow> world \<Rightarrow> user option" where
  "cache_get k w = map_option fst (cache w k)"

text \<open>\<open>SET\<close> stores the value and drops any time to live the key had.\<close>

definition cache_set :: "string \<Rightarrow> user \<Rightarrow> world \<Rightarrow> world" where
  "cache_set k v w = w\<lparr>cache := (cache w)(k \<mapsto> (v, None))\<rparr>"

definition cache_expire :: "string \<Rightarrow> nat \<Rightarrow> world \<Rightarrow> world" where
  "cache_expire k ttl w =
     (case cache w k of
        None \<Rightarrow> w
      | Some (v, _) \<Rightarrow> w\<lparr>cache := (cache w)(k \<mapsto> (v, Some ttl))\<rparr>)"

section \<open>User repository (src/repository/users.py)\<close>

definition get_user_by_email :: "string \<Rightarrow> world \<Rightarrow> user option" where
  "get_user_by_email e db = List.find (\<lambda>u. email u = e) (users db)"

text \<open>
  An ORM object stands for the row with its primary key: assigning to an attribute and
  committing rewrites that row.
\<close>

definition update_token :: "user \<Rightarrow> token option \<Rightarrow> world \<Rightarrow> world" where
  "update_token u tok db =
     db\<lparr>users := map (\<lambda>r. if uid r = uid u then r\<lparr>refresh_token := tok\<rparr> else r) (users db)\<rparr>"

text \<open>
  \<open>confirmed_email\<close> and \<open>update_avatar_url\<close> assign to an attribute of the looked-up
  user without a guard: on \<open>None\<close> the assignment raises \<open>AttributeError\<close>.
\<close>

definition confirmed_email :: "string \<Rightarrow> world \<Rightarrow> error + world" where
  "confirmed_email e db =
     (case get_user_by_email e db of
        None \<Rightarrow> Inl (AttributeError ''confirmed'')
      | Some u \<Rightarrow>
          Inr (db\<lparr>users := map (\<lambda>r. if uid r = uid u then r\<lparr>confirmed := True\<rparr> else r)
                              (users db)\<rparr>))"

definition update_avatar_url :: "string \<Rightarrow> string option \<Rightarrow> world \<Rightarrow> error + user \<times> world" where
  "update_avatar_url e url db =
     (case get_user_by_email e db of
        None \<Rightarrow> Inl (AttributeError ''avatar'')
      | Some u \<Rightarrow>
          Inr (u\<lparr>avatar := url\<rparr>,
               db\<lparr>users := map (\<lambda>r. if uid r = uid u then r\<lparr>avatar := url\<rparr> else r)
                              (users db)\<rparr>))"

section \<open>Current-user resolution (src/services/auth.py)\<close>

definition credentials_exception :: error where
  "credentials_exception = HTTPException 401 ''Could not validate credentials''"

definition get_current_user :: "auth \<Rightarrow> int \<Rightarrow> token \<Rightarrow> world \<Rightarrow> (error + user) \<times> world" where
  "get_current_user a now tok w =
     (case jwt_decode tok (SECRET_KEY a) [ALGORITHM a] now of
        None \<Rightarrow> (Inl credentials_exception, w)
      | Some p \<Rightarrow>
          (case map_of p ''scope'' of
             None \<Rightarrow> (Inl (KeyError ''scope''), w)
           | Some s \<Rightarrow>
               if s = Str ''access_token''
               then (case payload_sub p credentials_exception of
                       Inl err \<Rightarrow> (Inl err, w)
                     | Inr e \<Rightarrow>
                         (case cache_get e w of
                            None \<Rightarrow>
                              (case get_user_by_email e w of
                                 None \<Rightarrow> (Inl credentials_exception, w)
                               | Some u \<Rightarrow> (Inr u, cache_expire e 300 (cache_set e u w)))
                          | Some u \<Rightarrow> (Inr u, w)))
               else (Inl credentials_exception, w)))"

section \<open>Authentication routes (src/routes/auth.py)\<close>

datatype response = TokenModel token token string | Message string

definition login :: "auth \<Rightarrow> (nat \<Rightarrow> int) \<Rightarrow> string \<Rightarrow> string \<Rightarrow> world \<Rightarrow> (error + response) \<times> world" where
  "login a utcnow body_username body_password db =
     (case get_user_by_email body_username db of
        None \<Rightarrow> (Inl (HTTPException 401 ''Invalid email''), db)
      | Some u \<Rightarrow>
          if \<not> confirmed u then (Inl (HTTPException 401 ''Email is not confirmed''), db)
          else if \<not> pwd_verify a body_password (password u)
          then (Inl (HTTPException 401 ''Invalid password''), db)
          else
            (case create_access_token a utcnow [(''sub'', Str (email u))] None of
               Inl err \<Rightarrow> (Inl err, db)
             | Inr access_tok \<Rightarrow>
                 (case create_refresh_token a (\<lambda>n. utcnow (n + 2))
                         [(''sub'', Str (email u))] None of
                    Inl err \<Rightarrow> (Inl err, db)
                  | Inr refresh_tok \<Rightarrow>
                      (Inr (TokenModel access_tok refresh_tok ''bearer''),
                       update_token u (Some refresh_tok) db))))"

text \<open>
  \<open>refresh_token\<close> (the route; the name is taken by the column). \<open>now\<close> is the time,
  in whole seconds, at which the presented token is decoded. The looked-up user is read
  without a guard, and the presented token is compared with the stored one as a string.
\<close>

definition refresh_token_route :: "auth \<Rightarrow> int \<Rightarrow> (nat \<Rightarrow> int) \<Rightarrow> token \<Rightarrow> world \<Rightarrow> (error + response) \<times> world" where
  "refresh_token_route a now utcnow tok db =
     (case decode_refresh_token a now tok of
        Inl err \<Rightarrow> (Inl err, db)
      | Inr e \<Rightarrow>
          (case get_user_by_email e db of
             None \<Rightarrow> (Inl (AttributeError ''refresh_token''), db)
           | Some u \<Rightarrow>
               if refresh_token u \<noteq> Some tok
               then (Inl (HTTPException 401 ''Invalid refresh token''), update_token u None db)
               else
                 (case create_access_token a utcnow [(''sub'', Str e)] None of
                    Inl err \<Rightarrow> (Inl err, db)
                  | Inr access_tok \<Rightarrow>
                      (case create_refresh_token a (\<lambda>n. utcnow (n + 2))
                              [(''sub'', Str e)] None of
                         Inl err \<Rightarrow> (Inl err, db)
                       | Inr refresh_tok \<Rightarrow>
                           (Inr (TokenModel access_tok refresh_tok ''bearer''),
                            update_token u (Some refresh_tok) db)))))"

definition confirmed_email_route :: "auth \<Rightarrow> int \<Rightarrow> token \<Rightarrow> world \<Rightarrow> (error + response) \<times> world" where
  "confirmed_email_route a now tok db =
     (case get_email_from_token a now tok of
        Inl err \<Rightarrow> (Inl err, db)
      | Inr e \<Rightarrow>
          (case get_user_by_email e db of
             None \<Rightarrow> (Inl (HTTPException 400 ''Verification error''), db)
           | Some u \<Rightarrow>
               if confirmed u then (Inr (Message ''Your email is already confirmed''), db)
               else (case confirmed_email e db of
                       Inl err \<Rightarrow> (Inl err, db)
                     | Inr db' \<Rightarrow> (Inr (Message ''Email confirmed''), db'))))"

text \<open>
  \<open>request_email\<close> changes no table; it returns the response and the background tasks
  it scheduled, each a call of \<open>send_email\<close> with the address and the user name. The
  looked-up user is an \<open>option\<close>: \<open>user.confirmed\<close> on \<open>None\<close> raises, and \<open>if user:\<close>
  is the test for \<open>None\<close>.
\<close>

definition request_email :: "string \<Rightarrow> world \<Rightarrow> (error + response) \<times> (string \<times> string) list" where
  "request_email body_email db =
     (let usr = get_user_by_email body_email db in
      case usr of
        None \<Rightarrow> (Inl (AttributeError ''confirmed''), [])
      | Some u \<Rightarrow>
          if confirmed u then (Inr (Message ''Your email is already confirmed''), [])
          else
            (let background_tasks =
                   (case usr of None \<Rightarrow> [] | Some u' \<Rightarrow> [(email u', username u')])
             in (Inr (Message ''Check your email for confirmation.''), background_tasks)))"

section \<open>User routes (src/routes/users.py)\<close>

text \<open>
  \<open>update_avatar_user\<close> after the image host has returned \<open>res_url\<close>; \<open>usr\<close> is the
  user resolved by \<open>get_current_user\<close>.
\<close>

definition update_avatar_user :: "string \<Rightarrow> user \<Rightarrow> world \<Rightarrow> (error + user) \<times> world" where
  "update_avatar_user res_url usr db =
     (case update_avatar_url (email usr) (Some res_url) db of
        Inl err \<Rightarrow> (Inl err, db)
      | Inr (u, db') \<Rightarrow> (Inr u, cache_expire (email u) 300 (cache_set (email u) u db')))"

section \<open>Contact repository (src/repository/contacts.py)\<close>

text \<open>The body of a create or update request (\<open>ContactModel\<close> of src/schemas.py).\<close>

record contact_model =
  m_name :: string
  m_last_name :: string
  m_email :: "string option"
  m_phone :: string
  m_born_date :: date

subsection \<open>Calendar dates\<close>

text \<open>
  \<open>today + timedelta(days=7)\<close> on a \<open>datetime.date\<close>, by stepping through the
  Gregorian calendar one day at a time.
\<close>

definition leap_year :: "nat \<Rightarrow> bool" where
  "leap_year y = (if y mod 400 = 0 then True else if y mod 100 = 0 then False else y mod 4 = 0)"

definition days_in_month :: "nat \<Rightarrow> nat \<Rightarrow> nat" where
  "days_in_month y m =
     (if m = 2 then (if leap_year y then 29 else 28)
      else if m = 4 \<or> m = 6 \<or> m = 9 \<or> m = 11 then 30 else 31)"

definition next_day :: "date \<Rightarrow> date" where
  "next_day d =
     (if day d < days_in_month (year d) (month d) then d\<lparr>day := day d + 1\<rparr>
      else if month d < 12 then d\<lparr>month := month d + 1, day := 1\<rparr>
      else \<lparr>year = year d + 1, month = 1, day = 1\<rparr>)"

primrec add_days :: "date \<Rightarrow> nat \<Rightarrow> date" where
  "add_days d 0 = d"
| "add_days d (Suc n) = add_days (next_day d) n"

subsection \<open>Queries\<close>

text \<open>
  The filter of \<open>get_contacts_birthdays\<close>. \<open>extract\<close> of a NULL date is NULL, and a
  row whose condition is NULL is not selected.
\<close>

definition birthday_filter :: "date \<Rightarrow> date \<Rightarrow> user \<Rightarrow> contact \<Rightarrow> bool" where
  "birthday_filter today last_day usr c =
     (case born_date c of
        None \<Rightarrow> False
      | Some b \<Rightarrow>
          (month b = month last_day \<and> day b \<le> day last_day \<and> user_id c = Some (uid usr))
          \<or> (month b = month today \<and> day b \<ge> day today \<and> user_id c = Some (uid usr)))"

definition get_contacts_birthdays :: "date \<Rightarrow> world \<Rightarrow> user \<Rightarrow> contact list" where
  "get_contacts_birthdays today db usr =
     (let last_day = add_days today 7
      in filter (birthday_filter today last_day usr) (contacts db))"

definition get_contact :: "int \<Rightarrow> world \<Rightarrow> user \<Rightarrow> contact option" where
  "get_contact contact_id db usr =
     List.find (\<lambda>c. cid c = contact_id \<and> user_id c = Some (uid usr)) (contacts db)"

definition update_contact :: "int \<Rightarrow> contact_model \<Rightarrow> world \<Rightarrow> user \<Rightarrow> contact option \<times> world" where
  "update_contact contact_id body db usr =
     (case List.find (\<lambda>c. cid c = contact_id \<and> user_id c = Some (uid usr)) (contacts db) of
        None \<Rightarrow> (None, db)
      | Some c \<Rightarrow>
          (let write = (\<lambda>r. r\<lparr>name := m_name body, last_name := m_last_name body,
                               contact_email := m_email body, phone := m_phone body,
                               born_date := Some (m_born_date body)\<rparr>)
           in (Some (write c),
               db\<lparr>contacts := map (\<lambda>r. if cid r = cid c then write r else r) (contacts db)\<rparr>)))"

definition remove_contact :: "int \<Rightarrow> world \<Rightarrow> user \<Rightarrow> contact option \<times> world" where
  "remove_contact contact_id db usr =
     (case List.find (\<lambda>c. cid c = contact_id \<and> user_id c = Some (uid usr)) (contacts db) of
        None \<Rightarrow> (None, db)
      | Some c \<Rightarrow> (Some c, db\<lparr>contacts := filter (\<lambda>r. cid r \<noteq> cid c) (contacts db)\<rparr>))"

section \<open>Contact routes (src/routes/contacts.py)\<close>

definition not_found :: error where
  "not_found = HTTPException 404 ''Contact not found''"

definition read_contact :: "int \<Rightarrow> world \<Rightarrow> user \<Rightarrow> (error + contact) \<times> world" where
  "read_contact contact_id db usr =
     (case get_contact contact_id db usr of
        None \<Rightarrow> (Inl not_found, db)
      | Some c \<Rightarrow> (Inr c, db))"

definition update_contact_route :: "contact_model \<Rightarrow> int \<Rightarrow> world \<Rightarrow> user \<Rightarrow> (error + contact) \<times> world" where
  "update_contact_route body contact_id db usr =
     (case update_contact contact_id body db usr of
        (None, db') \<Rightarrow> (Inl not_found, db')
      | (Some c, db') \<Rightarrow> (Inr c, db'))"

definition remove_contact_route :: "int \<Rightarrow> world \<Rightarrow> user \<Rightarrow> (error + contact) \<times> world" where
  "remove_contact_route contact_id db usr =
     (case remove_contact contact_id db usr of
        (None, db') \<Rightarrow> (Inl not_found, db')
      | (Some c, db') \<Rightarrow> (Inr c, db'))"

section \<open>The birthday window as the specification words it\<close>

text \<open>
  A birth date is upcoming when its month and day are those of one of the eight days
  \<open>today\<close>, \<open>today + 1\<close>, ..., \<open>today + 7\<close>, whatever its year.
\<close>

definition spec_upcoming_birthday :: "date \<Rightarrow> date \<Rightarrow> bool" where
  "spec_upcoming_birthday today b =
     list_ex (\<lambda>i. month (add_days today i) = month b \<and> day (add_days today i) = day b) [0..<8]"

section \<open>Sample data for the worked examples\<close>

definition sample_auth :: auth where
  "sample_auth = \<lparr>SECRET_KEY = ''secret'', ALGORITHM = ''HS256'',
                   pwd_verify = (\<lambda>plain hashed. hashed = ''hash:'' @ plain)\<rparr>"

text \<open>
  The tokens that \<open>sample_auth\<close> issues for an email at the whole second \<open>t\<close> with the
  default lifetimes, in the spelling \<open>sp\<close>.
\<close>

definition sample_access_token :: "string \<Rightarrow> int \<Rightarrow> nat \<Rightarrow> token" where
  "sample_access_token e t sp =
     Signed ''secret'' ''HS256''
       [(''sub'', Str e), (''iat'', Time t), (''exp'', Time (t + 900)),
        (''scope'', Str ''access_token'')] sp"

definition sample_refresh_token :: "string \<Rightarrow> int \<Rightarrow> nat \<Rightarrow> token" where
  "sample_refresh_token e t sp =
     Signed ''secret'' ''HS256''
       [(''sub'', Str e), (''iat'', Time t), (''exp'', Time (t + 604800)),
        (''scope'', Str ''refresh_token'')] sp"

definition sample_email_token :: "string \<Rightarrow> int \<Rightarrow> nat \<Rightarrow> token" where
  "sample_email_token e t sp =
     Signed ''secret'' ''HS256''
       [(''sub'', Str e), (''iat'', Time t), (''exp'', Time (t + 604800))] sp"

definition alice :: user where
  "alice = \<lparr>uid = 1, username = ''alice'', email = ''alice@example.com'',
             password = ''hash:pw1'', avatar = None, refresh_token = None, confirmed = True\<rparr>"

definition bob :: user where
  "bob = \<lparr>uid = 2, username = ''bob'', email = ''bob@example.com'',
           password = ''hash:pw2'', avatar = None, refresh_token = None, confirmed = False\<rparr>"

definition sample_world :: world where
  "sample_world = \<lparr>users = [alice, bob], contacts = [], cache = Map.empty\<rparr>"

text \<open>A user holding the refresh token issued at second 1000.\<close>

definition carol :: user where
  "carol = \<lparr>uid = 3, username = ''carol'', email = ''carol@example.com'',
             password = ''hash:pw3'', avatar = None,
             refresh_token = Some (sample_refresh_token ''carol@example.com'' 1000 0),
             confirmed = True\<rparr>"

definition carol_world :: world where
  "carol_world = \<lparr>users = [alice, carol], contacts = [], cache = Map.empty\<rparr>"

text \<open>A world whose cache holds the snapshot of a user not yet confirmed.\<close>

definition stale_world :: world where
  "stale_world = \<lparr>users = [bob], contacts = [],
                    cache = [''bob@example.com'' \<mapsto> (bob, Some 300)]\<rparr>"

text \<open>Two contacts, the first owned by user 1 and the second by user 2.\<close>

definition eve :: contact where
  "eve = \<lparr>cid = 7, name = ''Eve'', last_name = ''Moneypenny'', contact_email = None,
           phone = ''+1000'', born_date = Some \<lparr>year = 2000, month = 1, day = 18\<rparr>,
           user_id = Some 1\<rparr>"

definition mallory :: contact where
  "mallory = \<lparr>cid = 8, name = ''Mallory'', last_name = ''Archer'', contact_email = None,
               phone = ''+2000'', born_date = None, user_id = Some 2\<rparr>"

definition contact_world :: world where
  "contact_world = \<lparr>users = [alice, bob], contacts = [eve, mallory], cache = Map.empty\<rparr>"

definition sample_body :: contact_model where
  "sample_body = \<lparr>m_name = ''Jane'', m_last_name = ''Doe'', m_email = None,
                   m_phone = ''+1000'', m_born_date = \<lparr>year = 2000, month = 1, day = 1\<rparr>\<rparr>"

section \<open>Durations and whole seconds\<close>

lemma timestamp_add_seconds: "timestamp (t + s * 1000000) = timestamp t + s"
  by (simp add: timestamp_def)

lemma round_half_even_of_int: "round_half_even (of_int n) = n"
  by (simp add: round_half_even_def)

lemma timedelta_seconds_whole:
  "timedelta_ok (s * 1000000) \<Longrightarrow> timedelta_seconds (Finite (of_int s)) = Inr (s * 1000000)"
proof -
  assume ok: "timedelta_ok (s * 1000000)"
  have "(of_int s :: rat) * 1000000 = of_int (s * 1000000)"
    by simp
  then have "round_half_even (of_int s * 1000000) = s * 1000000"
    by (simp only: round_half_even_of_int)
  with ok show ?thesis
    by simp
qed

lemma datetime_ok_timedelta_ok:
  assumes "datetime_ok t" and "datetime_ok (t + td)"
  shows "timedelta_ok td"
  using assms by (simp add: datetime_ok_def timedelta_ok_def datetime_min_def datetime_max_def)

section \<open>Issued tokens\<close>

lemma map_of_dict_update3:
  "map_of (dict_update d [(k1, v1), (k2, v2), (k3, v3)]) =
     (map_of d)(k1 \<mapsto> v1, k2 \<mapsto> v2, k3 \<mapsto> v3)"
  by (simp add: dict_update_def update_conv')

lemma create_access_token_default:
  assumes "datetime_ok (utcnow 0 + 15 * 60 * 1000000)"
  shows "create_access_token a utcnow data None =
           Inr (Signed (SECRET_KEY a) (ALGORITHM a)
                  (dict_update data
                     [(''iat'', Time (timestamp (utcnow 1))),
                      (''exp'', Time (timestamp (utcnow 0) + 15 * 60)),
                      (''scope'', Str ''access_token'')]) 0)"
  using assms timestamp_add_seconds [of "utcnow 0" "15 * 60"]
  by (simp add: create_access_token_def datetime_add_def jwt_encode_def)

lemma create_refresh_token_default:
  assumes "datetime_ok (utcnow 0 + 7 * 86400 * 1000000)"
  shows "create_refresh_token a utcnow data None =
           Inr (Signed (SECRET_KEY a) (ALGORITHM a)
                  (dict_update data
                     [(''iat'', Time (timestamp (utcnow 1))),
                      (''exp'', Time (timestamp (utcnow 0) + 7 * 86400)),
                      (''scope'', Str ''refresh_token'')]) 0)"
  using assms timestamp_add_seconds [of "utcnow 0" "7 * 86400"]
  by (simp add: create_refresh_token_def datetime_add_def jwt_encode_def)

lemma create_email_token_default:
  assumes "datetime_ok (utcnow 0 + 7 * 86400 * 1000000)"
  shows "create_email_token a utcnow data =
           Inr (Signed (SECRET_KEY a) (ALGORITHM a)
                  (dict_update data
                     [(''iat'', Time (timestamp (utcnow 1))),
                      (''exp'', Time (timestamp (utcnow 0) + 7 * 86400))]) 0)"
  using assms timestamp_add_seconds [of "utcnow 0" "7 * 86400"]
  by (simp add: create_email_token_def datetime_add_def jwt_encode_def)

lemma create_access_token_whole_seconds:
  assumes "s \<noteq> 0" and "datetime_ok (utcnow 0)" and "datetime_ok (utcnow 0 + s * 1000000)"
  shows "create_access_token a utcnow data (Some (Finite (of_int s))) =
           Inr (Signed (SECRET_KEY a) (ALGORITHM a)
                  (dict_update data
                     [(''iat'', Time (timestamp (utcnow 1))),
                      (''exp'', Time (timestamp (utcnow 0) + s)),
                      (''scope'', Str ''access_token'')]) 0)"
proof -
  have "timedelta_ok (s * 1000000)"
    using assms(2,3) by (rule datetime_ok_timedelta_ok)
  then have "timedelta_seconds (Finite (of_int s)) = Inr (s * 1000000)"
    by (rule timedelta_seconds_whole)
  then show ?thesis
    using assms(1,3)
    by (simp add: create_access_token_def datetime_add_def jwt_encode_def timestamp_add_seconds)
qed

text \<open>Whatever the override, a token that is issued carries \<open>iat\<close>, \<open>exp\<close> and the scope.\<close>

lemma create_access_token_embeds:
  assumes "create_access_token a utcnow data expires_delta = Inr tok"
  shows "map_of (payload tok) ''iat'' = Some (Time (timestamp (utcnow 1)))
       \<and> (\<exists>e. map_of (payload tok) ''exp'' = Some (Time e))
       \<and> map_of (payload tok) ''scope'' = Some (Str ''access_token'')"
proof -
  obtain expire where
    "tok = jwt_encode
             (dict_update data
                [(''iat'', Time (timestamp (utcnow 1))), (''exp'', Time (timestamp expire)),
                 (''scope'', Str ''access_token'')])
             (SECRET_KEY a) (ALGORITHM a)"
    using assms by (auto simp add: create_access_token_def split: sum.splits)
  then show ?thesis
    by (simp add: jwt_encode_def map_of_dict_update3)
qed

text \<open>
  C8, as the code has it. Let the issuance time be the first clock reading, counted in
  whole seconds as the claims of a token are. When the expiry is a \<open>datetime\<close>, the
  \<open>exp\<close> claim of the access token is the issuance time plus 15 minutes if no override
  is given, and the issuance time plus the override for every override that is a whole
  number of seconds other than 0; when the expiry lies beyond the range of \<open>datetime\<close>
  the call raises \<open>OverflowError\<close> and issues no token. Every token that is issued
  carries \<open>iat\<close> (the second clock reading), \<open>exp\<close> and the scope \<open>access_token\<close>,
  whatever claims the caller passed in.
\<close>

theorem create_access_token_expiry:
  "(expires_delta = None \<and> datetime_ok (utcnow 0 + 15 * 60 * 1000000) \<longrightarrow>
      (\<exists>tok. create_access_token a utcnow data expires_delta = Inr tok
          \<and> map_of (payload tok) ''exp'' = Some (Time (timestamp (utcnow 0) + 15 * 60))))
   \<and> (expires_delta = None \<and> \<not> datetime_ok (utcnow 0 + 15 * 60 * 1000000) \<longrightarrow>
      create_access_token a utcnow data expires_delta = Inl OverflowError)
   \<and> (\<forall>s. expires_delta = Some (Finite (of_int s)) \<and> s \<noteq> 0 \<and> datetime_ok (utcnow 0)
          \<and> datetime_ok (utcnow 0 + s * 1000000) \<longrightarrow>
      (\<exists>tok. create_access_token a utcnow data expires_delta = Inr tok
          \<and> map_of (payload tok) ''exp'' = Some (Time (timestamp (utcnow 0) + s))))
   \<and> (\<forall>s. expires_delta = Some (Finite (of_int s)) \<and> s \<noteq> 0 \<and> datetime_ok (utcnow 0)
          \<and> \<not> datetime_ok (utcnow 0 + s * 1000000) \<longrightarrow>
      create_access_token a utcnow data expires_delta = Inl OverflowError)
   \<and> (\<forall>tok. create_access_token a utcnow data expires_delta = Inr tok \<longrightarrow>
        map_of (payload tok) ''iat'' = Some (Time (timestamp (utcnow 1)))
        \<and> (\<exists>e. map_of (payload tok) ''exp'' = Some (Time e))
        \<and> map_of (payload tok) ''scope'' = Some (Str ''access_token''))"
proof -
  have none_ok: "\<exists>tok. create_access_token a utcnow data None = Inr tok
          \<and> map_of (payload tok) ''exp'' = Some (Time (timestamp (utcnow 0) + 15 * 60))"
    if "datetime_ok (utcnow 0 + 15 * 60 * 1000000)"
    using that create_access_token_default [of utcnow a data]
    by (simp add: map_of_dict_update3)
  have none_bad: "create_access_token a utcnow data None = Inl OverflowError"
    if "\<not> datetime_ok (utcnow 0 + 15 * 60 * 1000000)"
    using that by (simp add: create_access_token_def datetime_add_def)
  have whole_ok: "\<exists>tok. create_access_token a utcnow data (Some (Finite (of_int s))) = Inr tok
          \<and> map_of (payload tok) ''exp'' = Some (Time (timestamp (utcnow 0) + s))"
    if "s \<noteq> 0" and "datetime_ok (utcnow 0)" and "datetime_ok (utcnow 0 + s * 1000000)" for s
    using that create_access_token_whole_seconds [of s utcnow a data]
    by (simp add: map_of_dict_update3)
  have whole_bad: "create_access_token a utcnow data (Some (Finite (of_int s))) = Inl OverflowError"
    if "s \<noteq> 0" and "\<not> datetime_ok (utcnow 0 + s * 1000000)" for s
  proof (cases "timedelta_ok (s * 1000000)")
    case True
    then have "timedelta_seconds (Finite (of_int s)) = Inr (s * 1000000)"
      by (rule timedelta_seconds_whole)
    with that show ?thesis
      by (simp add: create_access_token_def datetime_add_def)
  next
    case False
    have "(of_int s :: rat) * 1000000 = of_int (s * 1000000)"
      by simp
    then have "round_half_even (of_int s * 1000000) = s * 1000000"
      by (simp only: round_half_even_of_int)
    with False have "timedelta_seconds (Finite (of_int s)) = Inl OverflowError"
      by simp
    with that(1) show ?thesis
      by (simp add: create_access_token_def)
  qed
  show ?thesis
    using none_ok none_bad whole_ok whole_bad create_access_token_embeds [of a utcnow data expires_delta]
    by blast
qed

lemma sample_clock_ok:
  "datetime_ok 1000500000" "datetime_ok (1000500000 + 15 * 60 * 1000000)"
  "datetime_ok (1000500000 + 30 * 1000000)"
  by (simp_all add: datetime_ok_def datetime_min_def datetime_max_def)

theorem create_access_token_expiry_witness:
  "(\<exists>tok. create_access_token sample_auth (\<lambda>n. 1000500000 + int n)
             [(''sub'', Str ''alice@example.com'')] None = Inr tok
        \<and> map_of (payload tok) ''exp'' = Some (Time 1900)
        \<and> map_of (payload tok) ''iat'' = Some (Time 1000))
   \<and> (\<exists>tok. create_access_token sample_auth (\<lambda>n. 1000500000 + int n)
             [(''sub'', Str ''alice@example.com'')] (Some (Finite 30)) = Inr tok
        \<and> map_of (payload tok) ''exp'' = Some (Time 1030)
        \<and> map_of (payload tok) ''scope'' = Some (Str ''access_token''))"
proof -
  let ?clk = "\<lambda>n. 1000500000 + int n"
  let ?data = "[(''sub'', Str ''alice@example.com'')]"
  have ok: "datetime_ok (?clk 0)" "datetime_ok (?clk 0 + 15 * 60 * 1000000)"
      "datetime_ok (?clk 0 + 30 * 1000000)"
    using sample_clock_ok by simp_all
  have f: "Finite 30 = Finite (of_int 30)"
    by simp
  from create_access_token_expiry [of None ?clk sample_auth ?data] ok(2)
  obtain tok where 1: "create_access_token sample_auth ?clk ?data None = Inr tok"
      "map_of (payload tok) ''exp'' = Some (Time (timestamp (?clk 0) + 15 * 60))"
      "map_of (payload tok) ''iat'' = Some (Time (timestamp (?clk 1)))"
    by blast
  from create_access_token_expiry [of "Some (Finite (of_int 30))" ?clk sample_auth ?data] ok(1,3)
  obtain tok' where 2:
      "create_access_token sample_auth ?clk ?data (Some (Finite (of_int 30))) = Inr tok'"
      "map_of (payload tok') ''exp'' = Some (Time (timestamp (?clk 0) + 30))"
      "map_of (payload tok') ''scope'' = Some (Str ''access_token'')"
    by (metis zero_neq_numeral)
  from 1 have "\<exists>tok. create_access_token sample_auth ?clk ?data None = Inr tok
        \<and> map_of (payload tok) ''exp'' = Some (Time 1900)
        \<and> map_of (payload tok) ''iat'' = Some (Time 1000)"
    by (simp add: timestamp_def)
  moreover from 2 have "\<exists>tok. create_access_token sample_auth ?clk ?data (Some (Finite 30)) = Inr tok
        \<and> map_of (payload tok) ''exp'' = Some (Time 1030)
        \<and> map_of (payload tok) ''scope'' = Some (Str ''access_token'')"
    by (simp add: timestamp_def)
  ultimately show ?thesis
    by blast
qed

text \<open>
  C8, as it is worded, fails in three ways. With the clock at second 1000: the
  override 0 is false in Python, so the token gets the default 15 minutes and not an
  expiry equal to its issuance time; the override of one and a half seconds gives the
  \<open>exp\<close> claim 1001, the token counting whole seconds; and with the override
  of 1000000000000 seconds the expiry lies beyond year 9999, so \<open>OverflowError\<close> is raised and no
  token is issued.
\<close>

theorem create_access_token_zero_override:
  "create_access_token sample_auth (\<lambda>n. 1000000000)
       [(''sub'', Str ''alice@example.com'')] (Some (Finite 0))
     = Inr (sample_access_token ''alice@example.com'' 1000 0)
   \<and> map_of (payload (sample_access_token ''alice@example.com'' 1000 0)) ''exp''
       = Some (Time (1000 + 15 * 60))
   \<and> map_of (payload (sample_access_token ''alice@example.com'' 1000 0)) ''exp''
       \<noteq> Some (Time (1000 + 0))
   \<and> create_access_token sample_auth (\<lambda>n. 1000000000)
       [(''sub'', Str ''alice@example.com'')] (Some (Finite (3 / 2)))
     = Inr (Signed ''secret'' ''HS256''
              [(''sub'', Str ''alice@example.com''), (''iat'', Time 1000), (''exp'', Time 1001),
               (''scope'', Str ''access_token'')] 0)
   \<and> (of_int 1001 :: rat) \<noteq> 1000 + 3 / 2
   \<and> create_access_token sample_auth (\<lambda>n. 1000000000)
       [(''sub'', Str ''alice@example.com'')] (Some (Finite 1000000000000))
     = Inl OverflowError"
  by (simp add: create_access_token_def sample_access_token_def sample_auth_def
      datetime_add_def datetime_ok_def datetime_min_def datetime_max_def timedelta_ok_def
      round_half_even_def timestamp_def jwt_encode_def dict_update_def)

section \<open>Round trip of issued tokens\<close>

lemma jwt_decode_issued:
  assumes "map_of data ''sub'' = Some (Str e)" and "now \<le> ex"
  shows "jwt_decode
           (Signed k al (dict_update data [(''iat'', Time i), (''exp'', Time ex), (''scope'', Str sc)]) sp)
           k [al] now
         = Some (dict_update data [(''iat'', Time i), (''exp'', Time ex), (''scope'', Str sc)])"
  using assms by (simp add: exp_ok_def iat_ok_def sub_ok_def map_of_dict_update3)

text \<open>
  C5. Let the claims passed in carry the email \<open>e\<close> as \<open>sub\<close>. With the default
  lifetime and an expiry that is a \<open>datetime\<close>, a token is issued, and decoding it
  under the same secret and algorithm before it expires gives back \<open>e\<close> and its scope:
  an access token decodes to its own claim set, with \<open>sub = e\<close> and
  \<open>scope = access_token\<close>; \<open>decode_refresh_token\<close> of a refresh token returns \<open>e\<close>, the
  scope being \<open>refresh_token\<close>.
\<close>

theorem token_round_trip:
  assumes "map_of data ''sub'' = Some (Str e)"
  shows "(datetime_ok (utcnow 0 + 15 * 60 * 1000000) \<and> now \<le> timestamp (utcnow 0) + 15 * 60 \<longrightarrow>
            (\<exists>tok. create_access_token a utcnow data None = Inr tok
                \<and> jwt_decode tok (SECRET_KEY a) [ALGORITHM a] now = Some (payload tok)
                \<and> map_of (payload tok) ''sub'' = Some (Str e)
                \<and> map_of (payload tok) ''scope'' = Some (Str ''access_token'')))
       \<and> (datetime_ok (utcnow 0 + 7 * 86400 * 1000000)
            \<and> now \<le> timestamp (utcnow 0) + 7 * 86400 \<longrightarrow>
            (\<exists>tok. create_refresh_token a utcnow data None = Inr tok
                \<and> decode_refresh_token a now tok = Inr e
                \<and> map_of (payload tok) ''scope'' = Some (Str ''refresh_token'')))"
proof -
  have access: "\<exists>tok. create_access_token a utcnow data None = Inr tok
                \<and> jwt_decode tok (SECRET_KEY a) [ALGORITHM a] now = Some (payload tok)
                \<and> map_of (payload tok) ''sub'' = Some (Str e)
                \<and> map_of (payload tok) ''scope'' = Some (Str ''access_token'')"
    if ok: "datetime_ok (utcnow 0 + 15 * 60 * 1000000)"
      and fresh: "now \<le> timestamp (utcnow 0) + 15 * 60"
  proof -
    let ?c = "dict_update data
                [(''iat'', Time (timestamp (utcnow 1))),
                 (''exp'', Time (timestamp (utcnow 0) + 15 * 60)),
                 (''scope'', Str ''access_token'')]"
    let ?tok = "Signed (SECRET_KEY a) (ALGORITHM a) ?c 0"
    have "create_access_token a utcnow data None = Inr ?tok"
      using ok by (rule create_access_token_default)
    moreover have "jwt_decode ?tok (SECRET_KEY a) [ALGORITHM a] now = Some ?c"
      using assms fresh by (rule jwt_decode_issued)
    moreover have "map_of ?c ''sub'' = Some (Str e)"
        and "map_of ?c ''scope'' = Some (Str ''access_token'')"
      using assms by (simp_all add: map_of_dict_update3)
    ultimately show ?thesis
      by simp
  qed
  have refresh: "\<exists>tok. create_refresh_token a utcnow data None = Inr tok
                \<and> decode_refresh_token a now tok = Inr e
                \<and> map_of (payload tok) ''scope'' = Some (Str ''refresh_token'')"
    if ok: "datetime_ok (utcnow 0 + 7 * 86400 * 1000000)"
      and fresh: "now \<le> timestamp (utcnow 0) + 7 * 86400"
  proof -
    let ?c = "dict_update data
                [(''iat'', Time (timestamp (utcnow 1))),
                 (''exp'', Time (timestamp (utcnow 0) + 7 * 86400)),
                 (''scope'', Str ''refresh_token'')]"
    let ?tok = "Signed (SECRET_KEY a) (ALGORITHM a) ?c 0"
    have "create_refresh_token a utcnow data None = Inr ?tok"
      using ok by (rule create_refresh_token_default)
    moreover have d: "jwt_decode ?tok (SECRET_KEY a) [ALGORITHM a] now = Some ?c"
      using assms fresh by (rule jwt_decode_issued)
    moreover have c: "map_of ?c ''sub'' = Some (Str e)"
        "map_of ?c ''scope'' = Some (Str ''refresh_token'')"
      using assms by (simp_all add: map_of_dict_update3)
    moreover have "decode_refresh_token a now ?tok = Inr e"
      using d c by (simp add: decode_refresh_token_def payload_sub_def)
    ultimately show ?thesis
      by simp
  qed
  from access refresh show ?thesis
    by blast
qed

section \<open>The sample tokens\<close>

lemma sample_second_ok:
  "datetime_ok (1000000000 + 15 * 60 * 1000000)"
  "datetime_ok (1000000000 + 7 * 86400 * 1000000)"
  by (simp_all add: datetime_ok_def datetime_min_def datetime_max_def)

lemma sample_access_issued:
  "create_access_token sample_auth (\<lambda>n. 1000000000) [(''sub'', Str e)] None
     = Inr (sample_access_token e 1000 0)"
  using create_access_token_default [of "\<lambda>n. 1000000000" sample_auth "[(''sub'', Str e)]"]
    sample_second_ok
  by (simp add: sample_access_token_def sample_auth_def timestamp_def dict_update_def)

lemma sample_refresh_issued:
  "create_refresh_token sample_auth (\<lambda>n. 1000000000) [(''sub'', Str e)] None
     = Inr (sample_refresh_token e 1000 0)"
  using create_refresh_token_default [of "\<lambda>n. 1000000000" sample_auth "[(''sub'', Str e)]"]
    sample_second_ok
  by (simp add: sample_refresh_token_def sample_auth_def timestamp_def dict_update_def)

lemma sample_email_issued:
  "create_email_token sample_auth (\<lambda>n. 1000000000) [(''sub'', Str e)]
     = Inr (sample_email_token e 1000 0)"
  using create_email_token_default [of "\<lambda>n. 1000000000" sample_auth "[(''sub'', Str e)]"]
    sample_second_ok
  by (simp add: sample_email_token_def sample_auth_def timestamp_def dict_update_def)

text \<open>A sample token decodes in every spelling, as long as it has not expired.\<close>

lemma sample_access_decodes:
  "now \<le> t + 900 \<Longrightarrow>
   jwt_decode (sample_access_token e t sp) (SECRET_KEY sample_auth) [ALGORITHM sample_auth] now
     = Some (payload (sample_access_token e t sp))"
  by (simp add: sample_access_token_def sample_auth_def exp_ok_def iat_ok_def sub_ok_def)

lemma sample_refresh_decodes:
  "now \<le> t + 604800 \<Longrightarrow>
   decode_refresh_token sample_auth now (sample_refresh_token e t sp) = Inr e"
  by (simp add: decode_refresh_token_def sample_refresh_token_def sample_auth_def exp_ok_def
      iat_ok_def sub_ok_def payload_sub_def)

lemma sample_email_token_decodes:
  "now \<le> t + 604800 \<Longrightarrow>
   get_email_from_token sample_auth now (sample_email_token e t sp) = Inr e"
  by (simp add: get_email_from_token_def sample_email_token_def sample_auth_def exp_ok_def
      iat_ok_def sub_ok_def payload_sub_def)

theorem token_round_trip_witness:
  "create_access_token sample_auth (\<lambda>n. 1000000000) [(''sub'', Str ''alice@example.com'')] None
     = Inr (sample_access_token ''alice@example.com'' 1000 0)
   \<and> jwt_decode (sample_access_token ''alice@example.com'' 1000 0) ''secret'' [''HS256''] 1900
     = Some [(''sub'', Str ''alice@example.com''), (''iat'', Time 1000), (''exp'', Time 1900),
             (''scope'', Str ''access_token'')]
   \<and> create_refresh_token sample_auth (\<lambda>n. 1000000000) [(''sub'', Str ''alice@example.com'')] None
     = Inr (sample_refresh_token ''alice@example.com'' 1000 0)
   \<and> decode_refresh_token sample_auth 1900 (sample_refresh_token ''alice@example.com'' 1000 0)
     = Inr ''alice@example.com''"
proof -
  let ?clk = "\<lambda>n::nat. 1000000000 :: int"
  let ?data = "[(''sub'', Str ''alice@example.com'')]"
  have s: "map_of ?data ''sub'' = Some (Str ''alice@example.com'')"
    by simp
  have t: "(1900::int) \<le> timestamp (?clk 0) + 15 * 60"
      "(1900::int) \<le> timestamp (?clk 0) + 7 * 86400"
    by (simp_all add: timestamp_def)
  have ok: "datetime_ok (?clk 0 + 15 * 60 * 1000000)" "datetime_ok (?clk 0 + 7 * 86400 * 1000000)"
    using sample_second_ok by simp_all
  from token_round_trip [OF s, of ?clk 1900 sample_auth] t ok
  obtain tok tok' where
      a: "create_access_token sample_auth ?clk ?data None = Inr tok"
         "jwt_decode tok (SECRET_KEY sample_auth) [ALGORITHM sample_auth] 1900 = Some (payload tok)"
    and r: "create_refresh_token sample_auth ?clk ?data None = Inr tok'"
         "decode_refresh_token sample_auth 1900 tok' = Inr ''alice@example.com''"
    by blast
  from a(1) have 1: "tok = sample_access_token ''alice@example.com'' 1000 0"
    by (simp add: sample_access_issued)
  from r(1) have 2: "tok' = sample_refresh_token ''alice@example.com'' 1000 0"
    by (simp add: sample_refresh_issued)
  from a r show ?thesis
    unfolding 1 2 by (simp add: sample_access_token_def sample_auth_def)
qed

section \<open>Lookups in the sample data\<close>

lemma sample_lookup_ghost: "get_user_by_email ''ghost@example.com'' sample_world = None"
  by (simp add: get_user_by_email_def sample_world_def alice_def bob_def)

lemma sample_lookup_alice: "get_user_by_email ''alice@example.com'' sample_world = Some alice"
  by (simp add: get_user_by_email_def sample_world_def alice_def bob_def)

lemma sample_lookup_bob: "get_user_by_email ''bob@example.com'' sample_world = Some bob"
  by (simp add: get_user_by_email_def sample_world_def alice_def bob_def)

lemma alice_confirmed: "confirmed alice"
  by (simp add: alice_def)

lemma bob_unconfirmed: "\<not> confirmed bob"
  by (simp add: bob_def)

lemma sample_lookup_carol: "get_user_by_email ''carol@example.com'' carol_world = Some carol"
  by (simp add: get_user_by_email_def carol_world_def alice_def carol_def)

text \<open>
  The row of \<open>carol\<close> holds the refresh token issued at second 1000. The token issued
  at second 500 is another string, and so is the stored token in another spelling.
\<close>

lemma carol_old_token_differs:
  "refresh_token carol \<noteq> Some (sample_refresh_token ''carol@example.com'' 500 0)"
  by (simp add: carol_def sample_refresh_token_def)

lemma carol_respelled_token_differs:
  "refresh_token carol \<noteq> Some (sample_refresh_token ''carol@example.com'' 1000 1)"
  by (simp add: carol_def sample_refresh_token_def)

lemma alice_wrong_password: "\<not> pwd_verify sample_auth ''guess'' (password alice)"
  by (simp add: sample_auth_def alice_def)

section \<open>Rewriting the row of a looked-up user\<close>

text \<open>
  A write to the row of the user found under an email, which leaves the email as it
  was, is seen by the next lookup under that email.
\<close>

lemma find_email_rewrite:
  assumes "\<And>r. email (f r) = email r"
      and "List.find (\<lambda>r. email r = e) us = Some u"
  shows "List.find (\<lambda>r. email r = e) (map (\<lambda>r. if uid r = uid u then f r else r) us)
           = Some (f u)"
  using assms(2)
proof (induction us)
  case Nil
  then show ?case by simp
next
  case (Cons r rs)
  show ?case
  proof (cases "email r = e")
    case True
    with Cons.prems have "r = u" by simp
    with True show ?thesis by (simp add: assms(1))
  next
    case False
    with Cons.prems have "List.find (\<lambda>r. email r = e) rs = Some u" by simp
    with Cons.IH False show ?thesis by (simp add: assms(1))
  qed
qed

lemma get_user_by_email_update_token:
  assumes "get_user_by_email e db = Some u"
  shows "get_user_by_email e (update_token u tok db) = Some (u\<lparr>refresh_token := tok\<rparr>)"
  using find_email_rewrite [of "\<lambda>r. r\<lparr>refresh_token := tok\<rparr>" e "users db" u] assms
  by (simp add: get_user_by_email_def update_token_def)

lemma get_user_by_email_confirmed_email:
  assumes "get_user_by_email e db = Some u"
  shows "\<exists>db'. confirmed_email e db = Inr db'
           \<and> get_user_by_email e db' = Some (u\<lparr>confirmed := True\<rparr>)
           \<and> contacts db' = contacts db \<and> cache db' = cache db"
  using find_email_rewrite [of "\<lambda>r. r\<lparr>confirmed := True\<rparr>" e "users db" u] assms
  by (simp add: get_user_by_email_def confirmed_email_def)

section \<open>Refreshing tokens\<close>

text \<open>
  C1. A refresh call whose token decodes with scope \<open>refresh_token\<close> to the email of
  a stored user, but is not the string stored as that user's refresh token, ends with
  the 401 error \<open>Invalid refresh token\<close>, and in the world it leaves behind the row
  holds no refresh token. This covers a presented string that differs from the stored
  one only in its spelling.
\<close>

theorem refresh_mismatch_clears_token:
  assumes "decode_refresh_token a now tok = Inr e"
      and "get_user_by_email e db = Some u"
      and "refresh_token u \<noteq> Some tok"
  shows "fst (refresh_token_route a now utcnow tok db)
           = Inl (HTTPException 401 ''Invalid refresh token'')
       \<and> get_user_by_email e (snd (refresh_token_route a now utcnow tok db))
           = Some (u\<lparr>refresh_token := None\<rparr>)"
  using assms by (simp add: refresh_token_route_def get_user_by_email_update_token)

theorem refresh_mismatch_clears_token_witness:
  "fst (refresh_token_route sample_auth 1900 (\<lambda>n. 2000000000)
          (sample_refresh_token ''carol@example.com'' 500 0) carol_world)
     = Inl (HTTPException 401 ''Invalid refresh token'')
   \<and> get_user_by_email ''carol@example.com''
        (snd (refresh_token_route sample_auth 1900 (\<lambda>n. 2000000000)
          (sample_refresh_token ''carol@example.com'' 500 0) carol_world))
     = Some (carol\<lparr>refresh_token := None\<rparr>)
   \<and> fst (refresh_token_route sample_auth 1900 (\<lambda>n. 2000000000)
          (sample_refresh_token ''carol@example.com'' 1000 1) carol_world)
     = Inl (HTTPException 401 ''Invalid refresh token'')
   \<and> get_user_by_email ''carol@example.com''
        (snd (refresh_token_route sample_auth 1900 (\<lambda>n. 2000000000)
          (sample_refresh_token ''carol@example.com'' 1000 1) carol_world))
     = Some (carol\<lparr>refresh_token := None\<rparr>)"
proof -
  have old: "decode_refresh_token sample_auth 1900
               (sample_refresh_token ''carol@example.com'' 500 0) = Inr ''carol@example.com''"
    by (rule sample_refresh_decodes) simp
  have respelled: "decode_refresh_token sample_auth 1900
               (sample_refresh_token ''carol@example.com'' 1000 1) = Inr ''carol@example.com''"
    by (rule sample_refresh_decodes) simp
  from refresh_mismatch_clears_token [OF old sample_lookup_carol carol_old_token_differs]
       refresh_mismatch_clears_token [OF respelled sample_lookup_carol
         carol_respelled_token_differs]
  show ?thesis
    by blast
qed

text \<open>
  C9. A refresh call whose token decodes with scope \<open>refresh_token\<close> to an email that
  no stored user has ends with the uncaught \<open>AttributeError\<close> of reading
  \<open>refresh_token\<close> on \<open>None\<close>, not with an \<open>HTTPException\<close>; the world is unchanged.
\<close>

theorem refresh_absent_user_attribute_error:
  assumes "decode_refresh_token a now tok = Inr e"
      and "get_user_by_email e db = None"
  shows "refresh_token_route a now utcnow tok db = (Inl (AttributeError ''refresh_token''), db)
       \<and> (\<forall>status detail. fst (refresh_token_route a now utcnow tok db)
             \<noteq> Inl (HTTPException status detail))"
  using assms by (simp add: refresh_token_route_def)

theorem refresh_absent_user_attribute_error_witness:
  "refresh_token_route sample_auth 1900 (\<lambda>n. 2000000000)
     (sample_refresh_token ''ghost@example.com'' 1000 0) sample_world
   = (Inl (AttributeError ''refresh_token''), sample_world)"
proof -
  have d: "decode_refresh_token sample_auth 1900
             (sample_refresh_token ''ghost@example.com'' 1000 0) = Inr ''ghost@example.com''"
    by (rule sample_refresh_decodes) simp
  from refresh_absent_user_attribute_error [OF d sample_lookup_ghost] show ?thesis
    by blast
qed

section \<open>Login\<close>

text \<open>
  C4. Login tests, in this order, that the user exists, that the user is confirmed and
  that the password verifies. Each failure is a 401 error and the three details differ.
  When the user is absent or unconfirmed the outcome is the same whatever the password
  verifier would answer: the password is not consulted.
\<close>

theorem login_check_order:
  "(get_user_by_email body_username db = None \<longrightarrow>
      login a utcnow body_username body_password db
        = (Inl (HTTPException 401 ''Invalid email''), db))
   \<and> (\<forall>u. get_user_by_email body_username db = Some u \<and> \<not> confirmed u \<longrightarrow>
      login a utcnow body_username body_password db
        = (Inl (HTTPException 401 ''Email is not confirmed''), db))
   \<and> (\<forall>u. get_user_by_email body_username db = Some u \<and> confirmed u
          \<and> \<not> pwd_verify a body_password (password u) \<longrightarrow>
      login a utcnow body_username body_password db
        = (Inl (HTTPException 401 ''Invalid password''), db))
   \<and> distinct [''Invalid email'', ''Email is not confirmed'', ''Invalid password'']
   \<and> (\<forall>v. (case get_user_by_email body_username db of
              None \<Rightarrow> True | Some u \<Rightarrow> \<not> confirmed u) \<longrightarrow>
      login (a\<lparr>pwd_verify := v\<rparr>) utcnow body_username body_password db
        = login a utcnow body_username body_password db)"
  by (auto simp add: login_def split: option.splits)

theorem login_check_order_witness:
  "login sample_auth (\<lambda>n. 1000000000) ''ghost@example.com'' ''guess'' sample_world
     = (Inl (HTTPException 401 ''Invalid email''), sample_world)
   \<and> login sample_auth (\<lambda>n. 1000000000) ''bob@example.com'' ''pw2'' sample_world
     = (Inl (HTTPException 401 ''Email is not confirmed''), sample_world)
   \<and> login sample_auth (\<lambda>n. 1000000000) ''alice@example.com'' ''guess'' sample_world
     = (Inl (HTTPException 401 ''Invalid password''), sample_world)
   \<and> login (sample_auth\<lparr>pwd_verify := (\<lambda>plain hashed. True)\<rparr>) (\<lambda>n. 1000000000)
       ''bob@example.com'' ''pw2'' sample_world
     = login sample_auth (\<lambda>n. 1000000000) ''bob@example.com'' ''pw2'' sample_world"
proof -
  have 1: "login sample_auth (\<lambda>n. 1000000000) ''ghost@example.com'' ''guess'' sample_world
             = (Inl (HTTPException 401 ''Invalid email''), sample_world)"
    using login_check_order [of "''ghost@example.com''" sample_world sample_auth
            "\<lambda>n. 1000000000" "''guess''"] sample_lookup_ghost
    by blast
  have 2: "login sample_auth (\<lambda>n. 1000000000) ''bob@example.com'' ''pw2'' sample_world
             = (Inl (HTTPException 401 ''Email is not confirmed''), sample_world)"
    using login_check_order [of "''bob@example.com''" sample_world sample_auth
            "\<lambda>n. 1000000000" "''pw2''"] sample_lookup_bob bob_unconfirmed
    by blast
  have 3: "login sample_auth (\<lambda>n. 1000000000) ''alice@example.com'' ''guess'' sample_world
             = (Inl (HTTPException 401 ''Invalid password''), sample_world)"
    using login_check_order [of "''alice@example.com''" sample_world sample_auth
            "\<lambda>n. 1000000000" "''guess''"] sample_lookup_alice alice_confirmed alice_wrong_password
    by blast
  have "case get_user_by_email ''bob@example.com'' sample_world of
          None \<Rightarrow> True | Some u \<Rightarrow> \<not> confirmed u"
    by (simp add: sample_lookup_bob bob_unconfirmed)
  then have 4: "login (sample_auth\<lparr>pwd_verify := (\<lambda>plain hashed. True)\<rparr>) (\<lambda>n. 1000000000)
                  ''bob@example.com'' ''pw2'' sample_world
                = login sample_auth (\<lambda>n. 1000000000) ''bob@example.com'' ''pw2'' sample_world"
    using login_check_order [of "''bob@example.com''" sample_world sample_auth
            "\<lambda>n. 1000000000" "''pw2''"]
    by blast
  from 1 2 3 4 show ?thesis by blast
qed

section \<open>Email confirmation\<close>

text \<open>
  C6. For a confirmation token that decodes to the email \<open>e\<close>: if the user under \<open>e\<close>
  is already confirmed the call answers \<open>Your email is already confirmed\<close> and leaves
  the world as it was; if the user is not confirmed the call answers \<open>Email confirmed\<close>
  and the user's row now has \<open>confirmed = True\<close>; if no user has the email the call
  fails with the 400 error \<open>Verification error\<close> and leaves the world as it was.
\<close>

theorem confirmed_email_route_cases:
  assumes "get_email_from_token a now tok = Inr e"
  shows "(\<forall>u. get_user_by_email e db = Some u \<and> confirmed u \<longrightarrow>
            confirmed_email_route a now tok db
              = (Inr (Message ''Your email is already confirmed''), db))
       \<and> (\<forall>u. get_user_by_email e db = Some u \<and> \<not> confirmed u \<longrightarrow>
            fst (confirmed_email_route a now tok db) = Inr (Message ''Email confirmed'')
            \<and> get_user_by_email e (snd (confirmed_email_route a now tok db))
                = Some (u\<lparr>confirmed := True\<rparr>))
       \<and> (get_user_by_email e db = None \<longrightarrow>
            confirmed_email_route a now tok db
              = (Inl (HTTPException 400 ''Verification error''), db))"
proof -
  have "fst (confirmed_email_route a now tok db) = Inr (Message ''Email confirmed'')
        \<and> get_user_by_email e (snd (confirmed_email_route a now tok db))
            = Some (u\<lparr>confirmed := True\<rparr>)"
    if "get_user_by_email e db = Some u" and "\<not> confirmed u" for u
    using get_user_by_email_confirmed_email [OF that(1)] that assms
    by (auto simp add: confirmed_email_route_def)
  then show ?thesis
    using assms by (simp add: confirmed_email_route_def)
qed

theorem confirmed_email_route_cases_witness:
  "confirmed_email_route sample_auth 1900 (sample_email_token ''alice@example.com'' 1000 0)
     sample_world
     = (Inr (Message ''Your email is already confirmed''), sample_world)
   \<and> fst (confirmed_email_route sample_auth 1900
       (sample_email_token ''bob@example.com'' 1000 0) sample_world)
     = Inr (Message ''Email confirmed'')
   \<and> get_user_by_email ''bob@example.com'' (snd (confirmed_email_route sample_auth 1900
       (sample_email_token ''bob@example.com'' 1000 0) sample_world))
     = Some (bob\<lparr>confirmed := True\<rparr>)
   \<and> confirmed_email_route sample_auth 1900 (sample_email_token ''ghost@example.com'' 1000 0)
     sample_world
     = (Inl (HTTPException 400 ''Verification error''), sample_world)"
proof -
  have d: "get_email_from_token sample_auth 1900 (sample_email_token e 1000 0) = Inr e" for e
    by (rule sample_email_token_decodes) simp
  from confirmed_email_route_cases [OF d, of "''alice@example.com''" sample_world]
       confirmed_email_route_cases [OF d, of "''bob@example.com''" sample_world]
       confirmed_email_route_cases [OF d, of "''ghost@example.com''" sample_world]
       sample_lookup_alice sample_lookup_bob sample_lookup_ghost alice_confirmed bob_unconfirmed
  show ?thesis
    by blast
qed

text \<open>
  C10. \<open>request_email\<close> reads \<open>confirmed\<close> before it tests whether the user exists:
  for an email that no user has it ends with the uncaught \<open>AttributeError\<close>. Whenever
  it reaches its final answer \<open>Check your email for confirmation.\<close> the user exists and
  the confirmation mail has been scheduled, so the existence test before the scheduling
  never fails.
\<close>

theorem request_email_reads_before_guard:
  "(get_user_by_email body_email db = None \<longrightarrow>
      request_email body_email db = (Inl (AttributeError ''confirmed''), []))
   \<and> (\<forall>u. get_user_by_email body_email db = Some u \<and> confirmed u \<longrightarrow>
      request_email body_email db = (Inr (Message ''Your email is already confirmed''), []))
   \<and> (\<forall>u. get_user_by_email body_email db = Some u \<and> \<not> confirmed u \<longrightarrow>
      request_email body_email db
        = (Inr (Message ''Check your email for confirmation.''), [(email u, username u)]))
   \<and> (\<forall>tasks. request_email body_email db
                 = (Inr (Message ''Check your email for confirmation.''), tasks) \<longrightarrow>
        (\<exists>u. get_user_by_email body_email db = Some u \<and> tasks = [(email u, username u)]))"
  by (auto simp add: request_email_def Let_def split: option.splits if_splits)

theorem request_email_reads_before_guard_witness:
  "request_email ''ghost@example.com'' sample_world = (Inl (AttributeError ''confirmed''), [])
   \<and> request_email ''alice@example.com'' sample_world
       = (Inr (Message ''Your email is already confirmed''), [])
   \<and> request_email ''bob@example.com'' sample_world
       = (Inr (Message ''Check your email for confirmation.''), [(email bob, username bob)])"
proof -
  have 1: "request_email ''ghost@example.com'' sample_world
             = (Inl (AttributeError ''confirmed''), [])"
    using request_email_reads_before_guard [of "''ghost@example.com''" sample_world]
      sample_lookup_ghost by blast
  have 2: "request_email ''alice@example.com'' sample_world
             = (Inr (Message ''Your email is already confirmed''), [])"
    using request_email_reads_before_guard [of "''alice@example.com''" sample_world]
      sample_lookup_alice alice_confirmed by blast
  have 3: "request_email ''bob@example.com'' sample_world
             = (Inr (Message ''Check your email for confirmation.''), [(email bob, username bob)])"
    using request_email_reads_before_guard [of "''bob@example.com''" sample_world]
      sample_lookup_bob bob_unconfirmed by blast
  from 1 2 3 show ?thesis by blast
qed

section \<open>The session cache after a write to a user\<close>

text \<open>
  The avatar route writes the changed user back to the cache under the user's email,
  with a time to live of 300 seconds.
\<close>

lemma update_avatar_user_refreshes_cache:
  assumes "get_user_by_email (email usr) db = Some u"
  shows "fst (update_avatar_user res_url usr db) = Inr (u\<lparr>avatar := Some res_url\<rparr>)
       \<and> get_user_by_email (email usr) (snd (update_avatar_user res_url usr db))
           = Some (u\<lparr>avatar := Some res_url\<rparr>)
       \<and> cache (snd (update_avatar_user res_url usr db)) (email usr)
           = Some (u\<lparr>avatar := Some res_url\<rparr>, Some 300)"
proof -
  have e: "email u = email usr"
    using assms by (auto simp add: get_user_by_email_def find_Some_iff)
  have "List.find (\<lambda>r. email r = email usr)
          (map (\<lambda>r. if uid r = uid u then r\<lparr>avatar := Some res_url\<rparr> else r) (users db))
        = Some (u\<lparr>avatar := Some res_url\<rparr>)"
    using find_email_rewrite [of "\<lambda>r. r\<lparr>avatar := Some res_url\<rparr>" "email usr" "users db" u] assms
    by (simp add: get_user_by_email_def)
  then show ?thesis
    using assms e
    by (simp add: update_avatar_user_def update_avatar_url_def get_user_by_email_def
        cache_set_def cache_expire_def)
qed

text \<open>
  C3 does not hold of the confirmation route, which never writes to the cache. Take the
  confirmation token and the access token issued for \<open>bob@example.com\<close> at second 1000,
  and a world whose cache holds the snapshot of the unconfirmed user under that email.
  Confirming the email sets \<open>confirmed\<close> in the table and leaves the cache entry as it
  was: the next resolution of the current user returns the snapshot taken before the
  confirmation.
\<close>

theorem confirmation_leaves_cache_stale:
  "create_email_token sample_auth (\<lambda>n. 1000000000) [(''sub'', Str ''bob@example.com'')]
     = Inr (sample_email_token ''bob@example.com'' 1000 0)
   \<and> create_access_token sample_auth (\<lambda>n. 1000000000) [(''sub'', Str ''bob@example.com'')] None
     = Inr (sample_access_token ''bob@example.com'' 1000 0)
   \<and> get_user_by_email ''bob@example.com'' stale_world = Some bob
   \<and> cache_get ''bob@example.com'' stale_world = Some bob
   \<and> \<not> confirmed bob
   \<and> fst (confirmed_email_route sample_auth 1900
       (sample_email_token ''bob@example.com'' 1000 0) stale_world)
     = Inr (Message ''Email confirmed'')
   \<and> get_user_by_email ''bob@example.com'' (snd (confirmed_email_route sample_auth 1900
       (sample_email_token ''bob@example.com'' 1000 0) stale_world))
     = Some (bob\<lparr>confirmed := True\<rparr>)
   \<and> cache_get ''bob@example.com'' (snd (confirmed_email_route sample_auth 1900
       (sample_email_token ''bob@example.com'' 1000 0) stale_world))
     = Some bob
   \<and> fst (get_current_user sample_auth 1900 (sample_access_token ''bob@example.com'' 1000 0)
       (snd (confirmed_email_route sample_auth 1900
         (sample_email_token ''bob@example.com'' 1000 0) stale_world)))
     = Inr bob"
proof -
  let ?tok = "sample_email_token ''bob@example.com'' 1000 0"
  let ?acc = "sample_access_token ''bob@example.com'' 1000 0"
  let ?w = "snd (confirmed_email_route sample_auth 1900 ?tok stale_world)"
  have g: "get_user_by_email ''bob@example.com'' stale_world = Some bob"
    by (simp add: get_user_by_email_def stale_world_def bob_def)
  have c: "cache_get ''bob@example.com'' stale_world = Some bob"
    by (simp add: cache_get_def stale_world_def)
  have e: "get_email_from_token sample_auth 1900 ?tok = Inr ''bob@example.com''"
    by (rule sample_email_token_decodes) simp
  obtain db' where db': "confirmed_email ''bob@example.com'' stale_world = Inr db'"
      "get_user_by_email ''bob@example.com'' db' = Some (bob\<lparr>confirmed := True\<rparr>)"
      "cache db' = cache stale_world"
    using get_user_by_email_confirmed_email [OF g] by blast
  have r: "confirmed_email_route sample_auth 1900 ?tok stale_world
             = (Inr (Message ''Email confirmed''), db')"
    using g db'(1) bob_unconfirmed
    by (simp add: confirmed_email_route_def e)
  have c': "cache_get ''bob@example.com'' ?w = Some bob"
    using c db'(3) by (simp add: r cache_get_def)
  have d: "jwt_decode ?acc (SECRET_KEY sample_auth) [ALGORITHM sample_auth] 1900
             = Some (payload ?acc)"
    by (rule sample_access_decodes) simp
  have p: "map_of (payload ?acc) ''scope'' = Some (Str ''access_token'')"
      "payload_sub (payload ?acc) credentials_exception = Inr ''bob@example.com''"
    by (simp_all add: sample_access_token_def payload_sub_def)
  have u: "fst (get_current_user sample_auth 1900 ?acc ?w) = Inr bob"
    using c' by (simp add: get_current_user_def d p)
  from sample_email_issued sample_access_issued g c bob_unconfirmed r db'(2) c' u
  show ?thesis
    by simp
qed

section \<open>Contacts of another owner\<close>

lemma find_other_owner:
  assumes "distinct (map cid cs)" and "r \<in> set cs" and "cid r = contact_id"
      and "user_id r \<noteq> Some owner"
  shows "List.find (\<lambda>c. cid c = contact_id \<and> user_id c = Some owner) cs = None"
proof -
  have "inj_on cid (set cs)"
    using assms(1) by (simp add: distinct_map)
  then have "c = r" if "c \<in> set cs" and "cid c = contact_id" for c
    using that assms(2,3) by (auto dest: inj_onD)
  then show ?thesis
    using assms(4) by (auto simp add: find_None_iff)
qed

text \<open>
  C7. When the row with the requested id belongs to another user (ids being a primary
  key), fetching, updating and deleting it through the repository each return nothing
  and leave the world, and so the other owner's row, as it was; the three routes answer
  with the 404 error \<open>Contact not found\<close>.
\<close>

theorem cross_owner_not_found:
  assumes "distinct (map cid (contacts db))"
      and "r \<in> set (contacts db)" and "cid r = contact_id"
      and "user_id r \<noteq> Some (uid usr)"
  shows "get_contact contact_id db usr = None
       \<and> update_contact contact_id body db usr = (None, db)
       \<and> remove_contact contact_id db usr = (None, db)
       \<and> read_contact contact_id db usr = (Inl not_found, db)
       \<and> update_contact_route body contact_id db usr = (Inl not_found, db)
       \<and> remove_contact_route contact_id db usr = (Inl not_found, db)"
  using find_other_owner [OF assms]
  by (simp add: get_contact_def update_contact_def remove_contact_def read_contact_def
      update_contact_route_def remove_contact_route_def)

theorem cross_owner_not_found_witness:
  "get_contact 8 contact_world alice = None
   \<and> update_contact 8 sample_body contact_world alice = (None, contact_world)
   \<and> remove_contact 8 contact_world alice = (None, contact_world)
   \<and> read_contact 8 contact_world alice = (Inl not_found, contact_world)
   \<and> update_contact_route sample_body 8 contact_world alice = (Inl not_found, contact_world)
   \<and> remove_contact_route 8 contact_world alice = (Inl not_found, contact_world)"
proof -
  have 1: "distinct (map cid (contacts contact_world))"
    by (simp add: contact_world_def eve_def mallory_def)
  have 2: "mallory \<in> set (contacts contact_world)"
    by (simp add: contact_world_def)
  have 3: "cid mallory = 8" by (simp add: mallory_def)
  have 4: "user_id mallory \<noteq> Some (uid alice)" by (simp add: mallory_def alice_def)
  show ?thesis by (rule cross_owner_not_found [OF 1 2 3 4])
qed

section \<open>Upcoming birthdays\<close>

lemma add_days_sample:
  "add_days \<lparr>year = 2024, month = 1, day = 10\<rparr> 7 = \<lparr>year = 2024, month = 1, day = 17\<rparr>"
  by (simp add: numeral_eq_Suc next_day_def days_in_month_def)

text \<open>
  C2 does not hold of the code. With today the 10th of January 2024 the window ends on
  the 17th, inside the same month, and the filter then accepts every birthday in January:
  the contact born on an 18th of January, 8 days out and outside the window of the
  specification, is returned.
\<close>

theorem birthdays_eight_days_out_returned:
  "add_days \<lparr>year = 2024, month = 1, day = 10\<rparr> 8 = \<lparr>year = 2024, month = 1, day = 18\<rparr>
   \<and> \<not> spec_upcoming_birthday \<lparr>year = 2024, month = 1, day = 10\<rparr>
         \<lparr>year = 2000, month = 1, day = 18\<rparr>
   \<and> born_date eve = Some \<lparr>year = 2000, month = 1, day = 18\<rparr>
   \<and> get_contacts_birthdays \<lparr>year = 2024, month = 1, day = 10\<rparr> contact_world alice = [eve]"
  by (simp add: numeral_eq_Suc next_day_def days_in_month_def spec_upcoming_birthday_def
      upt_rec get_contacts_birthdays_def birthday_filter_def contact_world_def eve_def
      mallory_def alice_def)

end
